theory Spec2Isabelle
  imports Main "HOL-Library.Word"
begin

section \<open>The wire-boundary data model of package distsqlpb\<close>

text \<open>
  An embedding of \<^verbatim>\<open>pkg/sql/distsqlpb/data.go\<close>: the conversions between the planner's
  column ordering and the ordering of \<^verbatim>\<open>data.proto\<close>, the two-form expression holder, and
  the error envelope sent between nodes.

  Go's \<^verbatim>\<open>int\<close> is read as a 64-bit two's complement integer (the width on every platform
  the program is built for), \<^verbatim>\<open>uint32\<close> and \<^verbatim>\<open>int32\<close> as 32-bit words. A slice is the
  list of its elements, so a nil slice and an empty one are the same list; where the code
  tests a slice, a pointer or an interface value against \<^verbatim>\<open>nil\<close>, or uses it where \<^verbatim>\<open>nil\<close>
  panics, it is an \<open>option\<close>. A Go panic is the left summand of a sum type.
\<close>

subsection \<open>Machine integers and panics\<close>

type_synonym go_int = "64 word"
type_synonym uint32 = "32 word"
type_synonym int32 = "32 word"

datatype panic =
    ColumnNotAvailable go_int  \<comment> \<open>\<^verbatim>\<open>"column %d in sort ordering not available"\<close>\<close>
  | BadErrorDetail  \<comment> \<open>\<^verbatim>\<open>"bad error detail: %+v"\<close>\<close>
  | IndexOutOfRange  \<comment> \<open>the runtime's panic at a slice index out of range\<close>
  | NilDereference  \<comment> \<open>the runtime's panic at a use of a nil pointer or nil interface\<close>

text \<open>The expression \<^verbatim>\<open>s[i]\<close> for a slice \<^verbatim>\<open>s\<close> and an \<^verbatim>\<open>int\<close> index.\<close>

definition slice_index :: "'a list \<Rightarrow> go_int \<Rightarrow> panic + 'a" where
  "slice_index s i =
     (if 0 \<le> sint i \<and> nat (sint i) < length s then Inr (s ! nat (sint i))
      else Inl IndexOutOfRange)"

subsection \<open>Orderings\<close>

text \<open>
  Modelled from the spec: the type \<^verbatim>\<open>encoding.Direction\<close>, which package
  \<^verbatim>\<open>pkg/util/encoding\<close> declares and \<^verbatim>\<open>data.go\<close> only uses. The spec gives the internal
  direction the two values Ascending and Descending; the Go type is an integer type, so a
  value that is neither is possible and is what the \<^verbatim>\<open>else\<close> branches of the conversions
  also receive: \<open>OtherDirection\<close>.
\<close>

datatype Direction = Ascending | Descending | OtherDirection

text \<open>
  Modelled from the spec: the types \<^verbatim>\<open>sqlbase.ColumnOrderInfo\<close> and
  \<^verbatim>\<open>sqlbase.ColumnOrdering\<close>, which package \<^verbatim>\<open>pkg/sql/sqlbase\<close> declares: an ordered
  sequence of (column index, direction). The index is an \<^verbatim>\<open>int\<close>: the code assigns
  \<^verbatim>\<open>int(c.ColIdx)\<close> to it and an element of an \<^verbatim>\<open>[]int\<close> to a variable made from it.
\<close>

record ColumnOrderInfo =
  ColIdx :: go_int
  Direction :: Direction

type_synonym ColumnOrdering = "ColumnOrderInfo list"

text \<open>
  Modelled from the spec: the types \<^verbatim>\<open>Ordering\<close>, \<^verbatim>\<open>Ordering_Column\<close> and
  \<^verbatim>\<open>Ordering_Column_Direction\<close> with its constants, which are generated from
  \<^verbatim>\<open>data.proto\<close>: an ordered list of
  \<^verbatim>\<open>{columnIndex: uint32, direction: enum{ASC=0, DESC=1}}\<close>. The enum is an \<^verbatim>\<open>int32\<close>, so a
  received message can hold a value that is neither.
\<close>

type_synonym Ordering_Column_Direction = int32

definition Ordering_Column_ASC :: Ordering_Column_Direction where
  "Ordering_Column_ASC = 0"

definition Ordering_Column_DESC :: Ordering_Column_Direction where
  "Ordering_Column_DESC = 1"

record Ordering_Column =
  ColIdx :: uint32
  Direction :: Ordering_Column_Direction

record Ordering =
  Columns :: "Ordering_Column list"

text \<open>
  \<^verbatim>\<open>ConvertToColumnOrdering\<close>: the body of its \<^verbatim>\<open>range\<close> loop for one column, and the loop
  over \<^verbatim>\<open>specOrdering.Columns\<close>, which fills \<^verbatim>\<open>ordering[i]\<close> from the \<open>i\<close>-th column.
\<close>

definition ConvertToColumnOrdering_col :: "Ordering_Column \<Rightarrow> ColumnOrderInfo" where
  "ConvertToColumnOrdering_col c =
     \<lparr>ColumnOrderInfo.ColIdx = ucast (Ordering_Column.ColIdx c),
      ColumnOrderInfo.Direction =
        (if Ordering_Column.Direction c = Ordering_Column_ASC then Ascending else Descending)\<rparr>"

primrec ConvertToColumnOrdering_loop :: "Ordering_Column list \<Rightarrow> ColumnOrdering" where
  "ConvertToColumnOrdering_loop [] = []"
| "ConvertToColumnOrdering_loop (c # cs) =
     ConvertToColumnOrdering_col c # ConvertToColumnOrdering_loop cs"

definition ConvertToColumnOrdering :: "Ordering \<Rightarrow> ColumnOrdering" where
  "ConvertToColumnOrdering specOrdering = ConvertToColumnOrdering_loop (Columns specOrdering)"

text \<open>
  \<^verbatim>\<open>ConvertToMappedSpecOrdering\<close>: the loop body for one column. With a map the index is
  looked up in it (a panic of the runtime when \<^verbatim>\<open>c.ColIdx\<close> is out of range) and the
  value \<open>-1\<close> panics; the index is then converted with \<^verbatim>\<open>uint32(colIdx)\<close>.
\<close>

definition ConvertToMappedSpecOrdering_col ::
  "ColumnOrderInfo \<Rightarrow> go_int list option \<Rightarrow> panic + Ordering_Column" where
  "ConvertToMappedSpecOrdering_col c planToStreamColMap =
     (case (case planToStreamColMap of
              None \<Rightarrow> Inr (ColumnOrderInfo.ColIdx c)
            | Some m \<Rightarrow>
                (case slice_index m (ColumnOrderInfo.ColIdx c) of
                   Inl p \<Rightarrow> Inl p
                 | Inr colIdx \<Rightarrow>
                     if colIdx = - 1 then Inl (ColumnNotAvailable (ColumnOrderInfo.ColIdx c))
                     else Inr colIdx)) of
        Inl p \<Rightarrow> Inl p
      | Inr colIdx \<Rightarrow>
          Inr \<lparr>Ordering_Column.ColIdx = ucast colIdx,
               Ordering_Column.Direction =
                 (if ColumnOrderInfo.Direction c = Ascending then Ordering_Column_ASC
                  else Ordering_Column_DESC)\<rparr>)"

text \<open>The loop stops at the first column that panics.\<close>

primrec ConvertToMappedSpecOrdering_loop ::
  "ColumnOrdering \<Rightarrow> go_int list option \<Rightarrow> panic + Ordering_Column list" where
  "ConvertToMappedSpecOrdering_loop [] planToStreamColMap = Inr []"
| "ConvertToMappedSpecOrdering_loop (c # cs) planToStreamColMap =
     (case ConvertToMappedSpecOrdering_col c planToStreamColMap of
        Inl p \<Rightarrow> Inl p
      | Inr sc \<Rightarrow>
          (case ConvertToMappedSpecOrdering_loop cs planToStreamColMap of
             Inl p \<Rightarrow> Inl p
           | Inr scs \<Rightarrow> Inr (sc # scs)))"

definition ConvertToMappedSpecOrdering ::
  "ColumnOrdering \<Rightarrow> go_int list option \<Rightarrow> panic + Ordering" where
  "ConvertToMappedSpecOrdering columnOrdering planToStreamColMap =
     (case ConvertToMappedSpecOrdering_loop columnOrdering planToStreamColMap of
        Inl p \<Rightarrow> Inl p
      | Inr cols \<Rightarrow> Inr \<lparr>Columns = cols\<rparr>)"

definition ConvertToSpecOrdering :: "ColumnOrdering \<Rightarrow> panic + Ordering" where
  "ConvertToSpecOrdering columnOrdering = ConvertToMappedSpecOrdering columnOrdering None"

subsection \<open>Expressions\<close>

text \<open>
  The struct \<^verbatim>\<open>Expression\<close>. \<^verbatim>\<open>LocalExpr\<close> is a \<^verbatim>\<open>tree.TypedExpr\<close>, an interface value of
  package \<^verbatim>\<open>tree\<close>: its type is a parameter, and \<^verbatim>\<open>nil\<close> is \<open>None\<close>.
\<close>

record 'te Expression =
  Version :: string
  Expr :: string
  LocalExpr :: "'te option"

text \<open>
  \<^verbatim>\<open>(*Expression).Empty\<close>. The receiver is a pointer: reading \<^verbatim>\<open>e.Expr\<close> through a nil
  pointer is a panic of the runtime.
\<close>

definition Expression_Empty :: "'te Expression option \<Rightarrow> panic + bool" where
  "Expression_Empty e =
     (case e of
        None \<Rightarrow> Inl NilDereference
      | Some x \<Rightarrow> Inr (Expr x = '''' \<and> LocalExpr x = None))"

text \<open>
  \<^verbatim>\<open>Expression.String\<close>. The formatting context belongs to package \<^verbatim>\<open>tree\<close>, so its
  three operations and the flag are parameters, in the order of the calls:
  \<^verbatim>\<open>tree.NewFmtCtx\<close> with \<^verbatim>\<open>tree.FmtCheckEquivalence\<close>, \<^verbatim>\<open>(*FmtCtx).FormatNode\<close> (which
  writes into the context, here returned) and \<^verbatim>\<open>(*FmtCtx).CloseAndGetString\<close>.
\<close>

definition Expression_String ::
  "('flags \<Rightarrow> 'ctx) \<Rightarrow> 'flags \<Rightarrow> ('ctx \<Rightarrow> 'te \<Rightarrow> 'ctx) \<Rightarrow> ('ctx \<Rightarrow> string) \<Rightarrow>
   'te Expression \<Rightarrow> string" where
  "Expression_String NewFmtCtx FmtCheckEquivalence FormatNode CloseAndGetString e =
     (case LocalExpr e of
        Some localExpr \<Rightarrow>
          (let ctx = NewFmtCtx FmtCheckEquivalence;
               ctx = FormatNode ctx localExpr
           in CloseAndGetString ctx)
      | None \<Rightarrow> if Expr e \<noteq> '''' then Expr e else ''none'')"

subsection \<open>The error envelope\<close>

text \<open>
  Modelled from the spec: the type \<^verbatim>\<open>pgerror.Error\<close>, the function \<^verbatim>\<open>pgerror.NewError\<close>,
  the constant \<^verbatim>\<open>pgerror.CodeInternalError\<close> and the method \<^verbatim>\<open>(*pgerror.Error).Error\<close>,
  which package \<^verbatim>\<open>pkg/sql/pgwire/pgerror\<close> declares and \<^verbatim>\<open>data.go\<close> only uses. The spec
  describes the generic database error as a code-classified error carrying a
  human-readable message and a stable error code, renders it by its message, and names
  the code of an unrecognized error "internal" (as the comment of \<^verbatim>\<open>NewError\<close> does).
\<close>

record PGError =
  Code :: string
  Message :: string

definition CodeInternalError :: string where
  "CodeInternalError = ''internal''"

definition pgerror_NewError :: "string \<Rightarrow> string \<Rightarrow> PGError" where
  "pgerror_NewError code msg = \<lparr>Code = code, Message = msg\<rparr>"

definition PGError_Error :: "PGError \<Rightarrow> string" where
  "PGError_Error pg = Message pg"

text \<open>
  The \<^verbatim>\<open>oneof\<close> field \<^verbatim>\<open>Detail\<close> of the message \<^verbatim>\<open>Error\<close>: an interface value that is
  \<^verbatim>\<open>nil\<close> (\<open>None\<close>), an \<^verbatim>\<open>*Error_PGError\<close>, an \<^verbatim>\<open>*Error_RetryableTxnError\<close>, or of a kind
  that only the \<^verbatim>\<open>default\<close> branch of \<^verbatim>\<open>ErrorDetail\<close> receives. The payload
  \<^verbatim>\<open>*roachpb.UnhandledRetryableError\<close> is opaque: its type is the parameter \<open>'r\<close>.
\<close>

datatype 'r isError_Detail =
    Error_PGError PGError
  | Error_RetryableTxnError 'r
  | Error_OtherDetail

record 'r Error =
  Detail :: "'r isError_Detail option"

text \<open>
  The value of Go's interface \<^verbatim>\<open>error\<close> that \<^verbatim>\<open>ErrorDetail\<close> returns: \<^verbatim>\<open>nil\<close> is \<open>None\<close>,
  and a value is one of the two payloads. Its method \<^verbatim>\<open>Error()\<close> is that of the payload;
  the one of the retryable error is a parameter.
\<close>

datatype 'r error_value =
    PGError_value PGError
  | UnhandledRetryableError_value 'r

definition error_Error :: "('r \<Rightarrow> string) \<Rightarrow> 'r error_value \<Rightarrow> string" where
  "error_Error UnhandledRetryableError_Error err =
     (case err of
        PGError_value pg \<Rightarrow> PGError_Error pg
      | UnhandledRetryableError_value r \<Rightarrow> UnhandledRetryableError_Error r)"

text \<open>\<^verbatim>\<open>(*Error).ErrorDetail\<close>, on a pointer that may be nil.\<close>

definition ErrorDetail :: "'r Error option \<Rightarrow> panic + 'r error_value option" where
  "ErrorDetail e =
     (case e of
        None \<Rightarrow> Inr None
      | Some x \<Rightarrow>
          (case Detail x of
             Some (Error_PGError pg) \<Rightarrow> Inr (Some (PGError_value pg))
           | Some (Error_RetryableTxnError r) \<Rightarrow> Inr (Some (UnhandledRetryableError_value r))
           | _ \<Rightarrow> Inl BadErrorDetail))"

text \<open>\<^verbatim>\<open>(*Error).String\<close>.\<close>

definition Error_String :: "('r \<Rightarrow> string) \<Rightarrow> 'r Error option \<Rightarrow> panic + string" where
  "Error_String UnhandledRetryableError_Error e =
     (case ErrorDetail e of
        Inl p \<Rightarrow> Inl p
      | Inr (Some err) \<Rightarrow> Inr (error_Error UnhandledRetryableError_Error err)
      | Inr None \<Rightarrow> Inr ''<nil>'')"

text \<open>
  \<^verbatim>\<open>NewError\<close>. The argument is a value of the interface \<^verbatim>\<open>error\<close>: \<open>None\<close> for \<^verbatim>\<open>nil\<close>,
  and a value of the parameter \<open>'e\<close> otherwise. What the code observes of it are
  parameters: \<^verbatim>\<open>pgerror.GetPGCause\<close>, the type assertion
  \<^verbatim>\<open>err.(*roachpb.UnhandledRetryableError)\<close> (which fails on \<^verbatim>\<open>nil\<close>) and the method
  \<^verbatim>\<open>err.Error()\<close> (a panic of the runtime on \<^verbatim>\<open>nil\<close>). Every branch returns the address of
  a fresh \<^verbatim>\<open>Error\<close>.
\<close>

definition NewError ::
  "('e option \<Rightarrow> PGError option) \<Rightarrow> ('e \<Rightarrow> 'r option) \<Rightarrow> ('e \<Rightarrow> string) \<Rightarrow>
   'e option \<Rightarrow> panic + 'r Error option" where
  "NewError GetPGCause asUnhandledRetryableError err_Error err =
     (case GetPGCause err of
        Some pgErr \<Rightarrow> Inr (Some \<lparr>Detail = Some (Error_PGError pgErr)\<rparr>)
      | None \<Rightarrow>
          (case (case err of None \<Rightarrow> None | Some x \<Rightarrow> asUnhandledRetryableError x) of
             Some retryErr \<Rightarrow> Inr (Some \<lparr>Detail = Some (Error_RetryableTxnError retryErr)\<rparr>)
           | None \<Rightarrow>
               (case err of
                  None \<Rightarrow> Inl NilDereference
                | Some x \<Rightarrow>
                    Inr (Some \<lparr>Detail = Some (Error_PGError
                           (pgerror_NewError CodeInternalError (err_Error x)))\<rparr>))))"

section \<open>Conversions between the integer types\<close>

text \<open>
  \<^verbatim>\<open>uint32(x)\<close> on an \<^verbatim>\<open>int\<close> keeps the low 32 bits; \<^verbatim>\<open>int(x)\<close> on a \<^verbatim>\<open>uint32\<close> extends with
  zeros, so the value is kept.
\<close>

lemma uint32_bound: "uint (v :: uint32) < 2 ^ 32"
  using uint_bounded [of v] by simp

lemma uint_narrow: "uint (ucast (v :: go_int) :: uint32) = uint v mod 2 ^ 32"
  by (simp add: unsigned_ucast_eq take_bit_eq_mod)

lemma sint_uint_mod: "sint (v :: go_int) mod 2 ^ 32 = uint v mod 2 ^ 32"
proof -
  have "uint v = sint v mod 2 ^ 64"
    by (simp add: uint_sint take_bit_eq_mod)
  then have "uint v mod 2 ^ 32 = (sint v mod 2 ^ 64) mod 2 ^ 32"
    by simp
  also have "\<dots> = sint v mod 2 ^ 32"
    by (rule mod_mod_cancel) simp
  finally show ?thesis by simp
qed

lemma uint_narrow_sint: "uint (ucast (v :: go_int) :: uint32) = sint v mod 2 ^ 32"
  by (simp only: uint_narrow sint_uint_mod)

lemma sint_widen: "sint (ucast (v :: uint32) :: go_int) = uint v"
proof -
  have "uint v < 2 ^ 63"
    using uint32_bound [of v] by simp
  moreover have "- (2 ^ 63) \<le> uint v"
    by (rule order_trans [of _ 0]) simp_all
  ultimately show ?thesis
    by (simp add: signed_ucast_eq signed_take_bit_int_eq_self_iff)
qed

lemma sint_there_and_back:
  "sint (ucast (ucast (v :: go_int) :: uint32) :: go_int) = sint v mod 2 ^ 32"
  by (simp only: sint_widen uint_narrow_sint)

lemma ucast_there_and_back_iff:
  "(ucast (ucast (w :: go_int) :: uint32) :: go_int) = w \<longleftrightarrow> 0 \<le> sint w \<and> sint w < 2 ^ 32"
proof
  assume "(ucast (ucast w :: uint32) :: go_int) = w"
  then have "sint w = sint w mod 2 ^ 32"
    using sint_there_and_back [of w] by simp
  moreover have "0 \<le> sint w mod 2 ^ 32" and "sint w mod 2 ^ 32 < 2 ^ 32"
    by simp_all
  ultimately show "0 \<le> sint w \<and> sint w < 2 ^ 32"
    by simp
next
  assume "0 \<le> sint w \<and> sint w < 2 ^ 32"
  then have "sint w mod 2 ^ 32 = sint w"
    by simp
  then have "sint (ucast (ucast w :: uint32) :: go_int) = sint w"
    by (simp only: sint_there_and_back)
  then show "(ucast (ucast w :: uint32) :: go_int) = w"
    by (rule signed_word_eqI)
qed

lemma ucast_minus_one: "(ucast (- 1 :: go_int) :: uint32) = 4294967295"
  by (simp add: word_uint_eq_iff uint_narrow unsigned_minus_1_eq_mask mask_eq_exp_minus_1)

section \<open>The loops of the ordering codec\<close>

lemma slice_index_Inr: "slice_index m i = Inr v \<Longrightarrow> v = m ! nat (sint i)"
  by (simp add: slice_index_def split: if_splits)

lemma ASC_neq_DESC: "Ordering_Column_DESC \<noteq> Ordering_Column_ASC"
  by (simp add: Ordering_Column_ASC_def Ordering_Column_DESC_def)

lemma ConvertToColumnOrdering_loop_length:
  "length (ConvertToColumnOrdering_loop cs) = length cs"
  by (induction cs) simp_all

lemma ConvertToColumnOrdering_loop_nth:
  "i < length cs \<Longrightarrow> ConvertToColumnOrdering_loop cs ! i = ConvertToColumnOrdering_col (cs ! i)"
proof (induction cs arbitrary: i)
  case Nil
  then show ?case by simp
next
  case (Cons c cs)
  then show ?case by (cases i) simp_all
qed

lemma ConvertToColumnOrdering_loop_map:
  "ConvertToColumnOrdering_loop cs = map ConvertToColumnOrdering_col cs"
  by (induction cs) simp_all

lemma col_there_and_back:
  "ConvertToColumnOrdering_col
     \<lparr>Ordering_Column.ColIdx = ucast v,
      Ordering_Column.Direction =
        (if d = Ascending then Ordering_Column_ASC else Ordering_Column_DESC)\<rparr> =
   \<lparr>ColumnOrderInfo.ColIdx = ucast (ucast v :: uint32),
    ColumnOrderInfo.Direction = (if d = Ascending then Ascending else Descending)\<rparr>"
  by (simp add: ConvertToColumnOrdering_col_def ASC_neq_DESC)

lemma col_fixed_iff:
  "\<lparr>ColumnOrderInfo.ColIdx = ucast (ucast (ColumnOrderInfo.ColIdx c) :: uint32),
    ColumnOrderInfo.Direction =
      (if ColumnOrderInfo.Direction c = Ascending then Ascending else Descending)\<rparr> = c
   \<longleftrightarrow> 0 \<le> sint (ColumnOrderInfo.ColIdx c) \<and> sint (ColumnOrderInfo.ColIdx c) < 2 ^ 32
       \<and> (ColumnOrderInfo.Direction c = Ascending \<or> ColumnOrderInfo.Direction c = Descending)"
proof (cases c)
  case (fields i d)
  show ?thesis
    unfolding fields using ucast_there_and_back_iff [of i] by (cases d) auto
qed

lemma col_None:
  "ConvertToMappedSpecOrdering_col c None =
     Inr \<lparr>Ordering_Column.ColIdx = ucast (ColumnOrderInfo.ColIdx c),
          Ordering_Column.Direction =
            (if ColumnOrderInfo.Direction c = Ascending then Ordering_Column_ASC
             else Ordering_Column_DESC)\<rparr>"
  by (simp add: ConvertToMappedSpecOrdering_col_def)

lemma col_Some_Inr:
  "slice_index m (ColumnOrderInfo.ColIdx c) = Inr v \<Longrightarrow> v \<noteq> - 1 \<Longrightarrow>
   ConvertToMappedSpecOrdering_col c (Some m) =
     Inr \<lparr>Ordering_Column.ColIdx = ucast v,
          Ordering_Column.Direction =
            (if ColumnOrderInfo.Direction c = Ascending then Ordering_Column_ASC
             else Ordering_Column_DESC)\<rparr>"
  by (simp add: ConvertToMappedSpecOrdering_col_def)

lemma col_Some_minus_one:
  "slice_index m (ColumnOrderInfo.ColIdx c) = Inr (- 1) \<Longrightarrow>
   ConvertToMappedSpecOrdering_col c (Some m) =
     Inl (ColumnNotAvailable (ColumnOrderInfo.ColIdx c))"
  by (simp add: ConvertToMappedSpecOrdering_col_def)

lemma col_ColumnNotAvailable:
  "ConvertToMappedSpecOrdering_col c M = Inl (ColumnNotAvailable k) \<Longrightarrow>
   \<exists>m. M = Some m \<and> ColumnOrderInfo.ColIdx c = k \<and> slice_index m k = Inr (- 1)"
  by (auto simp: ConvertToMappedSpecOrdering_col_def slice_index_def
      split: option.splits sum.splits if_splits)

lemma loop_Inl_col:
  "ConvertToMappedSpecOrdering_loop cs M = Inl p \<Longrightarrow>
   \<exists>c \<in> set cs. ConvertToMappedSpecOrdering_col c M = Inl p"
  by (induction cs) (auto split: sum.splits)

lemma col_Inl_loop:
  "c \<in> set cs \<Longrightarrow> ConvertToMappedSpecOrdering_col c M = Inl p \<Longrightarrow>
   \<exists>q. ConvertToMappedSpecOrdering_loop cs M = Inl q"
  by (induction cs) (auto split: sum.splits)

lemma loop_Inr:
  "\<forall>c \<in> set cs. ConvertToMappedSpecOrdering_col c M = Inr (f c) \<Longrightarrow>
   ConvertToMappedSpecOrdering_loop cs M = Inr (map f cs)"
  by (induction cs) simp_all

lemma ConvertToSpecOrdering_Inr:
  "ConvertToSpecOrdering co =
     Inr \<lparr>Columns = map (\<lambda>c. \<lparr>Ordering_Column.ColIdx = ucast (ColumnOrderInfo.ColIdx c),
          Ordering_Column.Direction =
            (if ColumnOrderInfo.Direction c = Ascending then Ordering_Column_ASC
             else Ordering_Column_DESC)\<rparr>) co\<rparr>"
proof -
  have "ConvertToMappedSpecOrdering_loop co None =
     Inr (map (\<lambda>c. \<lparr>Ordering_Column.ColIdx = ucast (ColumnOrderInfo.ColIdx c),
          Ordering_Column.Direction =
            (if ColumnOrderInfo.Direction c = Ascending then Ordering_Column_ASC
             else Ordering_Column_DESC)\<rparr>) co)"
    by (rule loop_Inr) (simp add: col_None)
  then show ?thesis
    by (simp add: ConvertToSpecOrdering_def ConvertToMappedSpecOrdering_def)
qed

lemma loop_Some_Inr:
  assumes "\<forall>c \<in> set co. \<exists>v. slice_index m (ColumnOrderInfo.ColIdx c) = Inr v \<and> v \<noteq> - 1"
  shows "ConvertToMappedSpecOrdering_loop co (Some m) =
     Inr (map (\<lambda>c. \<lparr>Ordering_Column.ColIdx = ucast (m ! nat (sint (ColumnOrderInfo.ColIdx c))),
          Ordering_Column.Direction =
            (if ColumnOrderInfo.Direction c = Ascending then Ordering_Column_ASC
             else Ordering_Column_DESC)\<rparr>) co)"
proof (rule loop_Inr, rule ballI)
  fix c
  assume "c \<in> set co"
  with assms obtain v
    where v: "slice_index m (ColumnOrderInfo.ColIdx c) = Inr v" "v \<noteq> - 1"
    by blast
  from v(1) have "v = m ! nat (sint (ColumnOrderInfo.ColIdx c))"
    by (rule slice_index_Inr)
  with col_Some_Inr [OF v]
  show "ConvertToMappedSpecOrdering_col c (Some m) =
     Inr \<lparr>Ordering_Column.ColIdx = ucast (m ! nat (sint (ColumnOrderInfo.ColIdx c))),
          Ordering_Column.Direction =
            (if ColumnOrderInfo.Direction c = Ascending then Ordering_Column_ASC
             else Ordering_Column_DESC)\<rparr>"
    by simp
qed

lemma loop_minus_one:
  assumes "c \<in> set co" and "slice_index m (ColumnOrderInfo.ColIdx c) = Inr (- 1)"
  shows "\<exists>p. ConvertToMappedSpecOrdering co (Some m) = Inl p"
proof -
  from assms(2) have "ConvertToMappedSpecOrdering_col c (Some m) =
      Inl (ColumnNotAvailable (ColumnOrderInfo.ColIdx c))"
    by (rule col_Some_minus_one)
  with assms(1) obtain q where "ConvertToMappedSpecOrdering_loop co (Some m) = Inl q"
    using col_Inl_loop by blast
  then show ?thesis
    by (simp add: ConvertToMappedSpecOrdering_def)
qed

lemma loop_defined_minus_one:
  assumes "\<forall>c \<in> set co. \<exists>v. slice_index m (ColumnOrderInfo.ColIdx c) = Inr v"
    and "c \<in> set co" and "slice_index m (ColumnOrderInfo.ColIdx c) = Inr (- 1)"
  shows "\<exists>k. ConvertToMappedSpecOrdering co (Some m) = Inl (ColumnNotAvailable k)
            \<and> slice_index m k = Inr (- 1)"
proof -
  from loop_minus_one [OF assms(2,3)] obtain p
    where p: "ConvertToMappedSpecOrdering co (Some m) = Inl p" ..
  then have "ConvertToMappedSpecOrdering_loop co (Some m) = Inl p"
    by (simp add: ConvertToMappedSpecOrdering_def split: sum.splits)
  then obtain c'
    where c': "c' \<in> set co" "ConvertToMappedSpecOrdering_col c' (Some m) = Inl p"
    using loop_Inl_col by blast
  from assms(1) c'(1) obtain v where v: "slice_index m (ColumnOrderInfo.ColIdx c') = Inr v"
    by blast
  with c'(2) have "p = ColumnNotAvailable (ColumnOrderInfo.ColIdx c') \<and> v = - 1"
    by (simp add: ConvertToMappedSpecOrdering_col_def split: if_splits)
  with p v show ?thesis
    by blast
qed

section \<open>The ordering codec\<close>

text \<open>
  C8. \<^verbatim>\<open>ConvertToColumnOrdering\<close> has no failing path. Its result has as many columns as the
  wire ordering, in the same order; the index of each column has the value of the wire
  index, and its direction is Ascending for \<^verbatim>\<open>ASC\<close> and Descending for every other value of
  the enum, the unrecognized ones included.
\<close>

theorem ConvertToColumnOrdering_total:
  "length (ConvertToColumnOrdering specOrdering) = length (Columns specOrdering) \<and>
   (\<forall>i < length (Columns specOrdering).
      sint (ColumnOrderInfo.ColIdx (ConvertToColumnOrdering specOrdering ! i)) =
        uint (Ordering_Column.ColIdx (Columns specOrdering ! i))
      \<and> ColumnOrderInfo.Direction (ConvertToColumnOrdering specOrdering ! i) =
          (if Ordering_Column.Direction (Columns specOrdering ! i) = Ordering_Column_ASC
           then Ascending else Descending))"
  by (simp add: ConvertToColumnOrdering_def ConvertToColumnOrdering_loop_length
      ConvertToColumnOrdering_loop_nth ConvertToColumnOrdering_col_def sint_widen)

text \<open>The third column has the direction 7, which the enum does not name.\<close>

theorem ConvertToColumnOrdering_total_witness:
  "length (ConvertToColumnOrdering
     \<lparr>Columns = [\<lparr>Ordering_Column.ColIdx = 0, Ordering_Column.Direction = 0\<rparr>,
                 \<lparr>Ordering_Column.ColIdx = 4294967295, Ordering_Column.Direction = 1\<rparr>,
                 \<lparr>Ordering_Column.ColIdx = 9, Ordering_Column.Direction = 7\<rparr>]\<rparr>) = 3
   \<and> sint (ColumnOrderInfo.ColIdx (ConvertToColumnOrdering
     \<lparr>Columns = [\<lparr>Ordering_Column.ColIdx = 0, Ordering_Column.Direction = 0\<rparr>,
                 \<lparr>Ordering_Column.ColIdx = 4294967295, Ordering_Column.Direction = 1\<rparr>,
                 \<lparr>Ordering_Column.ColIdx = 9, Ordering_Column.Direction = 7\<rparr>]\<rparr> ! 2)) = 9
   \<and> ColumnOrderInfo.Direction (ConvertToColumnOrdering
     \<lparr>Columns = [\<lparr>Ordering_Column.ColIdx = 0, Ordering_Column.Direction = 0\<rparr>,
                 \<lparr>Ordering_Column.ColIdx = 4294967295, Ordering_Column.Direction = 1\<rparr>,
                 \<lparr>Ordering_Column.ColIdx = 9, Ordering_Column.Direction = 7\<rparr>]\<rparr> ! 2) =
       Descending"
proof -
  have "(2 :: nat) < length (Columns
     \<lparr>Columns = [\<lparr>Ordering_Column.ColIdx = 0, Ordering_Column.Direction = 0\<rparr>,
                 \<lparr>Ordering_Column.ColIdx = 4294967295, Ordering_Column.Direction = 1\<rparr>,
                 \<lparr>Ordering_Column.ColIdx = 9, Ordering_Column.Direction = 7\<rparr>]\<rparr>)"
    by simp
  with ConvertToColumnOrdering_total [of
     "\<lparr>Columns = [\<lparr>Ordering_Column.ColIdx = 0, Ordering_Column.Direction = 0\<rparr>,
                 \<lparr>Ordering_Column.ColIdx = 4294967295, Ordering_Column.Direction = 1\<rparr>,
                 \<lparr>Ordering_Column.ColIdx = 9, Ordering_Column.Direction = 7\<rparr>]\<rparr>"]
  show ?thesis
    by (simp add: Ordering_Column_ASC_def)
qed

text \<open>
  C3, as the spec states it, fails: the wire index is a \<^verbatim>\<open>uint32\<close>, so an index that is
  negative or above \<open>2^32 - 1\<close> does not come back. The ordering of the one column
  \<open>(-1, Ascending)\<close> comes back as \<open>(4294967295, Ascending)\<close>.
\<close>

theorem roundtrip_counterexample:
  "ConvertToSpecOrdering
     [\<lparr>ColumnOrderInfo.ColIdx = - 1, ColumnOrderInfo.Direction = Ascending\<rparr>] =
     Inr \<lparr>Columns = [\<lparr>Ordering_Column.ColIdx = 4294967295,
                      Ordering_Column.Direction = Ordering_Column_ASC\<rparr>]\<rparr>
   \<and> ConvertToColumnOrdering
       \<lparr>Columns = [\<lparr>Ordering_Column.ColIdx = 4294967295,
                    Ordering_Column.Direction = Ordering_Column_ASC\<rparr>]\<rparr> =
     [\<lparr>ColumnOrderInfo.ColIdx = 4294967295, ColumnOrderInfo.Direction = Ascending\<rparr>]
   \<and> [\<lparr>ColumnOrderInfo.ColIdx = 4294967295, ColumnOrderInfo.Direction = Ascending\<rparr>] \<noteq>
     [\<lparr>ColumnOrderInfo.ColIdx = - 1, ColumnOrderInfo.Direction = Ascending\<rparr>]"
  by (simp add: ConvertToSpecOrdering_def ConvertToMappedSpecOrdering_def
      ConvertToMappedSpecOrdering_col_def ConvertToColumnOrdering_def
      ConvertToColumnOrdering_col_def ucast_minus_one)

text \<open>
  C3, amended. \<^verbatim>\<open>ConvertToSpecOrdering\<close> always returns, and converting its result back
  gives the ordering it was given exactly when every column index lies between \<open>0\<close> and
  \<open>2^32 - 1\<close> and every direction is Ascending or Descending.
\<close>

theorem roundtrip_iff:
  "\<exists>s. ConvertToSpecOrdering columnOrdering = Inr s \<and>
     (ConvertToColumnOrdering s = columnOrdering \<longleftrightarrow>
        (\<forall>c \<in> set columnOrdering.
            0 \<le> sint (ColumnOrderInfo.ColIdx c) \<and> sint (ColumnOrderInfo.ColIdx c) < 2 ^ 32
            \<and> (ColumnOrderInfo.Direction c = Ascending
                 \<or> ColumnOrderInfo.Direction c = Descending)))"
proof -
  let ?f = "\<lambda>c. \<lparr>Ordering_Column.ColIdx = ucast (ColumnOrderInfo.ColIdx c),
          Ordering_Column.Direction =
            (if ColumnOrderInfo.Direction c = Ascending then Ordering_Column_ASC
             else Ordering_Column_DESC)\<rparr>"
  let ?g = "\<lambda>c. \<lparr>ColumnOrderInfo.ColIdx = ucast (ucast (ColumnOrderInfo.ColIdx c) :: uint32),
          ColumnOrderInfo.Direction =
            (if ColumnOrderInfo.Direction c = Ascending then Ascending else Descending)\<rparr>"
  have conv: "ConvertToColumnOrdering \<lparr>Columns = map ?f columnOrdering\<rparr> = map ?g columnOrdering"
    by (simp add: ConvertToColumnOrdering_def ConvertToColumnOrdering_loop_map
        col_there_and_back)
  have "map ?g columnOrdering = columnOrdering \<longleftrightarrow>
      map ?g columnOrdering = map (\<lambda>c. c) columnOrdering"
    by simp
  also have "\<dots> \<longleftrightarrow> (\<forall>c \<in> set columnOrdering. ?g c = c)"
    by (simp only: map_eq_conv)
  finally have "ConvertToColumnOrdering \<lparr>Columns = map ?f columnOrdering\<rparr> = columnOrdering \<longleftrightarrow>
        (\<forall>c \<in> set columnOrdering.
            0 \<le> sint (ColumnOrderInfo.ColIdx c) \<and> sint (ColumnOrderInfo.ColIdx c) < 2 ^ 32
            \<and> (ColumnOrderInfo.Direction c = Ascending
                 \<or> ColumnOrderInfo.Direction c = Descending))"
    by (simp only: conv col_fixed_iff)
  then show ?thesis
    by (simp only: ConvertToSpecOrdering_Inr sum.inject simp_thms ex_simps)
qed

text \<open>The first scenario of the spec, with a second column.\<close>

theorem roundtrip_iff_witness:
  "ConvertToSpecOrdering
     [\<lparr>ColumnOrderInfo.ColIdx = 2, ColumnOrderInfo.Direction = Descending\<rparr>,
      \<lparr>ColumnOrderInfo.ColIdx = 0, ColumnOrderInfo.Direction = Ascending\<rparr>] =
     Inr \<lparr>Columns = [\<lparr>Ordering_Column.ColIdx = 2,
                      Ordering_Column.Direction = Ordering_Column_DESC\<rparr>,
                     \<lparr>Ordering_Column.ColIdx = 0,
                      Ordering_Column.Direction = Ordering_Column_ASC\<rparr>]\<rparr>
   \<and> ConvertToColumnOrdering
       \<lparr>Columns = [\<lparr>Ordering_Column.ColIdx = 2,
                    Ordering_Column.Direction = Ordering_Column_DESC\<rparr>,
                   \<lparr>Ordering_Column.ColIdx = 0,
                    Ordering_Column.Direction = Ordering_Column_ASC\<rparr>]\<rparr> =
     [\<lparr>ColumnOrderInfo.ColIdx = 2, ColumnOrderInfo.Direction = Descending\<rparr>,
      \<lparr>ColumnOrderInfo.ColIdx = 0, ColumnOrderInfo.Direction = Ascending\<rparr>]"
proof -
  have spec: "ConvertToSpecOrdering
     [\<lparr>ColumnOrderInfo.ColIdx = 2, ColumnOrderInfo.Direction = Descending\<rparr>,
      \<lparr>ColumnOrderInfo.ColIdx = 0, ColumnOrderInfo.Direction = Ascending\<rparr>] =
     Inr \<lparr>Columns = [\<lparr>Ordering_Column.ColIdx = 2,
                      Ordering_Column.Direction = Ordering_Column_DESC\<rparr>,
                     \<lparr>Ordering_Column.ColIdx = 0,
                      Ordering_Column.Direction = Ordering_Column_ASC\<rparr>]\<rparr>"
    by (simp add: ConvertToSpecOrdering_def ConvertToMappedSpecOrdering_def
        ConvertToMappedSpecOrdering_col_def)
  have range: "\<forall>c \<in> set
     [\<lparr>ColumnOrderInfo.ColIdx = 2, ColumnOrderInfo.Direction = Descending\<rparr>,
      \<lparr>ColumnOrderInfo.ColIdx = 0, ColumnOrderInfo.Direction = Ascending\<rparr>].
            0 \<le> sint (ColumnOrderInfo.ColIdx c) \<and> sint (ColumnOrderInfo.ColIdx c) < 2 ^ 32
            \<and> (ColumnOrderInfo.Direction c = Ascending
                 \<or> ColumnOrderInfo.Direction c = Descending)"
    by simp
  from roundtrip_iff [of
     "[\<lparr>ColumnOrderInfo.ColIdx = 2, ColumnOrderInfo.Direction = Descending\<rparr>,
       \<lparr>ColumnOrderInfo.ColIdx = 0, ColumnOrderInfo.Direction = Ascending\<rparr>]"]
  show ?thesis
    unfolding spec using range by (simp only: sum.inject simp_thms ex_simps)
qed

text \<open>
  C4, as the spec states it, fails: a map value that is negative without being \<open>-1\<close> is
  defined and not \<open>-1\<close>, and it does not come back. With the map \<open>[-2]\<close> the column
  \<open>(0, Ascending)\<close> is sent with the index \<open>4294967294\<close> and comes back with it.
\<close>

theorem ConvertToMappedSpecOrdering_counterexample:
  "slice_index [- 2 :: go_int] 0 = Inr (- 2)
   \<and> (- 2 :: go_int) \<noteq> - 1
   \<and> ConvertToMappedSpecOrdering
       [\<lparr>ColumnOrderInfo.ColIdx = 0, ColumnOrderInfo.Direction = Ascending\<rparr>] (Some [- 2]) =
     Inr \<lparr>Columns = [\<lparr>Ordering_Column.ColIdx = 4294967294,
                      Ordering_Column.Direction = Ordering_Column_ASC\<rparr>]\<rparr>
   \<and> ConvertToColumnOrdering
       \<lparr>Columns = [\<lparr>Ordering_Column.ColIdx = 4294967294,
                    Ordering_Column.Direction = Ordering_Column_ASC\<rparr>]\<rparr> =
     [\<lparr>ColumnOrderInfo.ColIdx = 4294967294, ColumnOrderInfo.Direction = Ascending\<rparr>]
   \<and> (4294967294 :: go_int) \<noteq> - 2"
  by (simp add: ConvertToMappedSpecOrdering_def ConvertToMappedSpecOrdering_col_def
      slice_index_def ConvertToColumnOrdering_def ConvertToColumnOrdering_col_def)

text \<open>
  C4, amended. When every column index of the ordering is in the range of the map and the
  value found is not \<open>-1\<close>, \<^verbatim>\<open>ConvertToMappedSpecOrdering\<close> returns, and converting its
  result back gives, column by column, the map value reduced modulo \<open>2^32\<close>, which is the
  map value itself exactly when that lies between \<open>0\<close> and \<open>2^32 - 1\<close>, and the direction
  Ascending for Ascending and Descending for anything else. When the value found for some
  column is \<open>-1\<close> the call panics, and with "column not available" when the indices of all
  columns are in the range of the map. With a nil map the function is
  \<^verbatim>\<open>ConvertToSpecOrdering\<close>.
\<close>

theorem ConvertToMappedSpecOrdering_remap:
  "((\<forall>c \<in> set columnOrdering.
        \<exists>v. slice_index m (ColumnOrderInfo.ColIdx c) = Inr v \<and> v \<noteq> - 1) \<longrightarrow>
      (\<exists>s. ConvertToMappedSpecOrdering columnOrdering (Some m) = Inr s
         \<and> length (ConvertToColumnOrdering s) = length columnOrdering
         \<and> (\<forall>i < length columnOrdering.
              sint (ColumnOrderInfo.ColIdx (ConvertToColumnOrdering s ! i)) =
                sint (m ! nat (sint (ColumnOrderInfo.ColIdx (columnOrdering ! i)))) mod 2 ^ 32
              \<and> (ColumnOrderInfo.ColIdx (ConvertToColumnOrdering s ! i) =
                   m ! nat (sint (ColumnOrderInfo.ColIdx (columnOrdering ! i)))
                 \<longleftrightarrow> 0 \<le> sint (m ! nat (sint (ColumnOrderInfo.ColIdx (columnOrdering ! i))))
                     \<and> sint (m ! nat (sint (ColumnOrderInfo.ColIdx (columnOrdering ! i))))
                         < 2 ^ 32)
              \<and> ColumnOrderInfo.Direction (ConvertToColumnOrdering s ! i) =
                  (if ColumnOrderInfo.Direction (columnOrdering ! i) = Ascending then Ascending
                   else Descending))))
   \<and> ((\<exists>c \<in> set columnOrdering. slice_index m (ColumnOrderInfo.ColIdx c) = Inr (- 1)) \<longrightarrow>
        (\<exists>p. ConvertToMappedSpecOrdering columnOrdering (Some m) = Inl p))
   \<and> ((\<forall>c \<in> set columnOrdering. \<exists>v. slice_index m (ColumnOrderInfo.ColIdx c) = Inr v)
        \<and> (\<exists>c \<in> set columnOrdering. slice_index m (ColumnOrderInfo.ColIdx c) = Inr (- 1)) \<longrightarrow>
        (\<exists>k. ConvertToMappedSpecOrdering columnOrdering (Some m) = Inl (ColumnNotAvailable k)
            \<and> slice_index m k = Inr (- 1)))
   \<and> ConvertToMappedSpecOrdering columnOrdering None = ConvertToSpecOrdering columnOrdering"
proof (intro conjI impI)
  assume h: "\<forall>c \<in> set columnOrdering.
      \<exists>v. slice_index m (ColumnOrderInfo.ColIdx c) = Inr v \<and> v \<noteq> - 1"
  let ?f = "\<lambda>c. \<lparr>Ordering_Column.ColIdx = ucast (m ! nat (sint (ColumnOrderInfo.ColIdx c))),
          Ordering_Column.Direction =
            (if ColumnOrderInfo.Direction c = Ascending then Ordering_Column_ASC
             else Ordering_Column_DESC)\<rparr>"
  let ?g = "\<lambda>c. \<lparr>ColumnOrderInfo.ColIdx =
                   ucast (ucast (m ! nat (sint (ColumnOrderInfo.ColIdx c))) :: uint32),
          ColumnOrderInfo.Direction =
            (if ColumnOrderInfo.Direction c = Ascending then Ascending else Descending)\<rparr>"
  let ?s = "\<lparr>Columns = map ?f columnOrdering\<rparr>"
  have res: "ConvertToMappedSpecOrdering columnOrdering (Some m) = Inr ?s"
    by (simp add: ConvertToMappedSpecOrdering_def loop_Some_Inr [OF h])
  have conv: "ConvertToColumnOrdering ?s = map ?g columnOrdering"
    by (simp add: ConvertToColumnOrdering_def ConvertToColumnOrdering_loop_map
        col_there_and_back)
  have main: "ConvertToMappedSpecOrdering columnOrdering (Some m) = Inr ?s
         \<and> length (ConvertToColumnOrdering ?s) = length columnOrdering
         \<and> (\<forall>i < length columnOrdering.
              sint (ColumnOrderInfo.ColIdx (ConvertToColumnOrdering ?s ! i)) =
                sint (m ! nat (sint (ColumnOrderInfo.ColIdx (columnOrdering ! i)))) mod 2 ^ 32
              \<and> (ColumnOrderInfo.ColIdx (ConvertToColumnOrdering ?s ! i) =
                   m ! nat (sint (ColumnOrderInfo.ColIdx (columnOrdering ! i)))
                 \<longleftrightarrow> 0 \<le> sint (m ! nat (sint (ColumnOrderInfo.ColIdx (columnOrdering ! i))))
                     \<and> sint (m ! nat (sint (ColumnOrderInfo.ColIdx (columnOrdering ! i))))
                         < 2 ^ 32)
              \<and> ColumnOrderInfo.Direction (ConvertToColumnOrdering ?s ! i) =
                  (if ColumnOrderInfo.Direction (columnOrdering ! i) = Ascending then Ascending
                   else Descending))"
    unfolding conv using res by (simp add: sint_there_and_back ucast_there_and_back_iff)
  show "\<exists>s. ConvertToMappedSpecOrdering columnOrdering (Some m) = Inr s
         \<and> length (ConvertToColumnOrdering s) = length columnOrdering
         \<and> (\<forall>i < length columnOrdering.
              sint (ColumnOrderInfo.ColIdx (ConvertToColumnOrdering s ! i)) =
                sint (m ! nat (sint (ColumnOrderInfo.ColIdx (columnOrdering ! i)))) mod 2 ^ 32
              \<and> (ColumnOrderInfo.ColIdx (ConvertToColumnOrdering s ! i) =
                   m ! nat (sint (ColumnOrderInfo.ColIdx (columnOrdering ! i)))
                 \<longleftrightarrow> 0 \<le> sint (m ! nat (sint (ColumnOrderInfo.ColIdx (columnOrdering ! i))))
                     \<and> sint (m ! nat (sint (ColumnOrderInfo.ColIdx (columnOrdering ! i))))
                         < 2 ^ 32)
              \<and> ColumnOrderInfo.Direction (ConvertToColumnOrdering s ! i) =
                  (if ColumnOrderInfo.Direction (columnOrdering ! i) = Ascending then Ascending
                   else Descending))"
    by (rule exI [of _ ?s]) (rule main)
next
  assume "\<exists>c \<in> set columnOrdering. slice_index m (ColumnOrderInfo.ColIdx c) = Inr (- 1)"
  then show "\<exists>p. ConvertToMappedSpecOrdering columnOrdering (Some m) = Inl p"
    using loop_minus_one by blast
next
  assume "(\<forall>c \<in> set columnOrdering. \<exists>v. slice_index m (ColumnOrderInfo.ColIdx c) = Inr v)
        \<and> (\<exists>c \<in> set columnOrdering. slice_index m (ColumnOrderInfo.ColIdx c) = Inr (- 1))"
  then show "\<exists>k. ConvertToMappedSpecOrdering columnOrdering (Some m) =
        Inl (ColumnNotAvailable k) \<and> slice_index m k = Inr (- 1)"
    using loop_defined_minus_one by blast
next
  show "ConvertToMappedSpecOrdering columnOrdering None = ConvertToSpecOrdering columnOrdering"
    by (simp add: ConvertToSpecOrdering_def)
qed

text \<open>
  The map \<open>[3, 5]\<close> sends the columns \<open>(1, Descending), (0, Ascending)\<close> to
  \<open>(5, Descending), (3, Ascending)\<close>; the map \<open>[- 1]\<close> has no place for the column \<open>0\<close>.
\<close>

theorem ConvertToMappedSpecOrdering_remap_witness:
  "ConvertToMappedSpecOrdering
     [\<lparr>ColumnOrderInfo.ColIdx = 1, ColumnOrderInfo.Direction = Descending\<rparr>,
      \<lparr>ColumnOrderInfo.ColIdx = 0, ColumnOrderInfo.Direction = Ascending\<rparr>] (Some [3, 5]) =
     Inr \<lparr>Columns = [\<lparr>Ordering_Column.ColIdx = 5,
                      Ordering_Column.Direction = Ordering_Column_DESC\<rparr>,
                     \<lparr>Ordering_Column.ColIdx = 3,
                      Ordering_Column.Direction = Ordering_Column_ASC\<rparr>]\<rparr>
   \<and> ConvertToColumnOrdering
       \<lparr>Columns = [\<lparr>Ordering_Column.ColIdx = 5,
                    Ordering_Column.Direction = Ordering_Column_DESC\<rparr>,
                   \<lparr>Ordering_Column.ColIdx = 3,
                    Ordering_Column.Direction = Ordering_Column_ASC\<rparr>]\<rparr> =
     [\<lparr>ColumnOrderInfo.ColIdx = 5, ColumnOrderInfo.Direction = Descending\<rparr>,
      \<lparr>ColumnOrderInfo.ColIdx = 3, ColumnOrderInfo.Direction = Ascending\<rparr>]
   \<and> ConvertToMappedSpecOrdering
       [\<lparr>ColumnOrderInfo.ColIdx = 0, ColumnOrderInfo.Direction = Ascending\<rparr>] (Some [- 1]) =
     Inl (ColumnNotAvailable 0)"
proof -
  have defined: "\<forall>c \<in> set
     [\<lparr>ColumnOrderInfo.ColIdx = 1, ColumnOrderInfo.Direction = Descending\<rparr>,
      \<lparr>ColumnOrderInfo.ColIdx = 0, ColumnOrderInfo.Direction = Ascending\<rparr>].
      \<exists>v. slice_index [3, 5 :: go_int] (ColumnOrderInfo.ColIdx c) = Inr v \<and> v \<noteq> - 1"
    by (simp add: slice_index_def)
  have missing: "(\<forall>c \<in> set
     [\<lparr>ColumnOrderInfo.ColIdx = 0, ColumnOrderInfo.Direction = Ascending\<rparr>].
      \<exists>v. slice_index [- 1 :: go_int] (ColumnOrderInfo.ColIdx c) = Inr v)
    \<and> (\<exists>c \<in> set
     [\<lparr>ColumnOrderInfo.ColIdx = 0, ColumnOrderInfo.Direction = Ascending\<rparr>].
      slice_index [- 1 :: go_int] (ColumnOrderInfo.ColIdx c) = Inr (- 1))"
    by (simp add: slice_index_def)
  from defined missing
    ConvertToMappedSpecOrdering_remap [of
     "[\<lparr>ColumnOrderInfo.ColIdx = 1, ColumnOrderInfo.Direction = Descending\<rparr>,
       \<lparr>ColumnOrderInfo.ColIdx = 0, ColumnOrderInfo.Direction = Ascending\<rparr>]" "[3, 5]"]
    ConvertToMappedSpecOrdering_remap [of
     "[\<lparr>ColumnOrderInfo.ColIdx = 0, ColumnOrderInfo.Direction = Ascending\<rparr>]" "[- 1]"]
  show ?thesis
    by (simp add: ConvertToMappedSpecOrdering_def ConvertToMappedSpecOrdering_col_def
        slice_index_def ConvertToColumnOrdering_def ConvertToColumnOrdering_col_def
        ASC_neq_DESC)
qed

text \<open>
  C10. With a map, the panic "column not available" is raised only for a column whose map
  value is exactly \<open>-1\<close>. A column whose map value \<open>v\<close> is negative and not \<open>-1\<close> is
  converted, and its wire index is \<open>v\<close> reduced modulo \<open>2^32\<close>; when the map value of
  every column is defined and not \<open>-1\<close> the whole conversion returns, with the wire index
  of each column its map value reduced modulo \<open>2^32\<close>.
\<close>

theorem ColumnNotAvailable_only_at_minus_one:
  "(ConvertToMappedSpecOrdering columnOrdering (Some m) = Inl (ColumnNotAvailable k) \<longrightarrow>
      (\<exists>c \<in> set columnOrdering. ColumnOrderInfo.ColIdx c = k \<and> slice_index m k = Inr (- 1)))
   \<and> (slice_index m (ColumnOrderInfo.ColIdx c) = Inr v \<and> sint v < 0 \<and> v \<noteq> - 1 \<longrightarrow>
        (\<exists>sc. ConvertToMappedSpecOrdering_col c (Some m) = Inr sc
            \<and> uint (Ordering_Column.ColIdx sc) = sint v mod 2 ^ 32))
   \<and> ((\<forall>c \<in> set columnOrdering.
          \<exists>v. slice_index m (ColumnOrderInfo.ColIdx c) = Inr v \<and> v \<noteq> - 1) \<longrightarrow>
        (\<exists>s. ConvertToMappedSpecOrdering columnOrdering (Some m) = Inr s
            \<and> length (Columns s) = length columnOrdering
            \<and> (\<forall>i < length columnOrdering.
                 uint (Ordering_Column.ColIdx (Columns s ! i)) =
                   sint (m ! nat (sint (ColumnOrderInfo.ColIdx (columnOrdering ! i))))
                     mod 2 ^ 32)))"
proof (intro conjI impI)
  assume "ConvertToMappedSpecOrdering columnOrdering (Some m) = Inl (ColumnNotAvailable k)"
  then have "ConvertToMappedSpecOrdering_loop columnOrdering (Some m) =
      Inl (ColumnNotAvailable k)"
    by (simp add: ConvertToMappedSpecOrdering_def split: sum.splits)
  then obtain c where "c \<in> set columnOrdering"
      "ConvertToMappedSpecOrdering_col c (Some m) = Inl (ColumnNotAvailable k)"
    using loop_Inl_col by blast
  then show "\<exists>c \<in> set columnOrdering.
      ColumnOrderInfo.ColIdx c = k \<and> slice_index m k = Inr (- 1)"
    using col_ColumnNotAvailable by blast
next
  assume "slice_index m (ColumnOrderInfo.ColIdx c) = Inr v \<and> sint v < 0 \<and> v \<noteq> - 1"
  then show "\<exists>sc. ConvertToMappedSpecOrdering_col c (Some m) = Inr sc
            \<and> uint (Ordering_Column.ColIdx sc) = sint v mod 2 ^ 32"
    by (simp add: col_Some_Inr uint_narrow_sint)
next
  assume h: "\<forall>c \<in> set columnOrdering.
      \<exists>v. slice_index m (ColumnOrderInfo.ColIdx c) = Inr v \<and> v \<noteq> - 1"
  show "\<exists>s. ConvertToMappedSpecOrdering columnOrdering (Some m) = Inr s
            \<and> length (Columns s) = length columnOrdering
            \<and> (\<forall>i < length columnOrdering.
                 uint (Ordering_Column.ColIdx (Columns s ! i)) =
                   sint (m ! nat (sint (ColumnOrderInfo.ColIdx (columnOrdering ! i))))
                     mod 2 ^ 32)"
    by (simp add: ConvertToMappedSpecOrdering_def loop_Some_Inr [OF h] uint_narrow_sint)
qed

text \<open>The map value \<open>-2\<close> is sent as \<open>4294967294 = 2^32 - 2\<close>.\<close>

theorem ColumnNotAvailable_only_at_minus_one_witness:
  "slice_index [- 2 :: go_int] 0 = Inr (- 2)
   \<and> sint (- 2 :: go_int) < 0
   \<and> ConvertToMappedSpecOrdering_col
       \<lparr>ColumnOrderInfo.ColIdx = 0, ColumnOrderInfo.Direction = Ascending\<rparr> (Some [- 2]) =
     Inr \<lparr>Ordering_Column.ColIdx = 4294967294,
          Ordering_Column.Direction = Ordering_Column_ASC\<rparr>
   \<and> uint (4294967294 :: uint32) = sint (- 2 :: go_int) mod 2 ^ 32
   \<and> ConvertToMappedSpecOrdering
       [\<lparr>ColumnOrderInfo.ColIdx = 0, ColumnOrderInfo.Direction = Ascending\<rparr>] (Some [- 2]) =
     Inr \<lparr>Columns = [\<lparr>Ordering_Column.ColIdx = 4294967294,
                      Ordering_Column.Direction = Ordering_Column_ASC\<rparr>]\<rparr>
   \<and> ConvertToMappedSpecOrdering
       [\<lparr>ColumnOrderInfo.ColIdx = 0, ColumnOrderInfo.Direction = Ascending\<rparr>] (Some [- 1]) =
     Inl (ColumnNotAvailable 0)
   \<and> slice_index [- 1 :: go_int] 0 = Inr (- 1)"
proof -
  have panics: "ConvertToMappedSpecOrdering
       [\<lparr>ColumnOrderInfo.ColIdx = 0, ColumnOrderInfo.Direction = Ascending\<rparr>] (Some [- 1]) =
     Inl (ColumnNotAvailable 0)"
    by (simp add: ConvertToMappedSpecOrdering_def ConvertToMappedSpecOrdering_col_def
        slice_index_def)
  have lookup: "slice_index [- 2 :: go_int]
      (ColumnOrderInfo.ColIdx
        \<lparr>ColumnOrderInfo.ColIdx = 0, ColumnOrderInfo.Direction = Ascending\<rparr>) = Inr (- 2)
      \<and> sint (- 2 :: go_int) < 0 \<and> (- 2 :: go_int) \<noteq> - 1"
    by (simp add: slice_index_def)
  have defined: "\<forall>c \<in> set
     [\<lparr>ColumnOrderInfo.ColIdx = 0, ColumnOrderInfo.Direction = Ascending\<rparr>].
      \<exists>v. slice_index [- 2 :: go_int] (ColumnOrderInfo.ColIdx c) = Inr v \<and> v \<noteq> - 1"
    by (simp add: slice_index_def)
  from panics lookup defined
    ColumnNotAvailable_only_at_minus_one [of
     "[\<lparr>ColumnOrderInfo.ColIdx = 0, ColumnOrderInfo.Direction = Ascending\<rparr>]" "[- 2]" 0
     "\<lparr>ColumnOrderInfo.ColIdx = 0, ColumnOrderInfo.Direction = Ascending\<rparr>" "- 2"]
    ColumnNotAvailable_only_at_minus_one [of
     "[\<lparr>ColumnOrderInfo.ColIdx = 0, ColumnOrderInfo.Direction = Ascending\<rparr>]" "[- 1]" 0
     "\<lparr>ColumnOrderInfo.ColIdx = 0, ColumnOrderInfo.Direction = Ascending\<rparr>" "- 2"]
  show ?thesis
    by (simp add: ConvertToMappedSpecOrdering_def ConvertToMappedSpecOrdering_col_def
        slice_index_def)
qed

section \<open>The error envelope: classification and extraction\<close>

text \<open>
  C1. For every error \<open>e\<close> (a value of the interface, not \<^verbatim>\<open>nil\<close>), whatever the shape checks
  answer, \<^verbatim>\<open>NewError(e)\<close> returns without a panic an envelope that is not nil, and
  \<^verbatim>\<open>ErrorDetail\<close> of that envelope returns without a panic an error that is not nil. When
  neither shape check recognizes \<open>e\<close>, the envelope holds a database error with the code
  \<^verbatim>\<open>CodeInternalError\<close> and the message \<^verbatim>\<open>e.Error()\<close>, and that error is the detail.
\<close>

theorem NewError_total:
  "\<exists>env d. NewError GetPGCause asUnhandledRetryableError err_Error (Some e) = Inr (Some env)
      \<and> ErrorDetail (Some env) = Inr (Some d)
      \<and> (GetPGCause (Some e) = None \<and> asUnhandledRetryableError e = None \<longrightarrow>
           env = \<lparr>Detail = Some (Error_PGError
                   \<lparr>Code = CodeInternalError, Message = err_Error e\<rparr>)\<rparr>
           \<and> d = PGError_value \<lparr>Code = CodeInternalError, Message = err_Error e\<rparr>)"
  by (auto simp: NewError_def ErrorDetail_def pgerror_NewError_def split: option.splits)

theorem NewError_total_witness:
  "NewError (\<lambda>err :: string option. None) (\<lambda>err :: string. None :: nat option)
     (\<lambda>err. err) (Some ''boom'') =
     Inr (Some \<lparr>Detail = Some (Error_PGError \<lparr>Code = ''internal'', Message = ''boom''\<rparr>)\<rparr>)
   \<and> ErrorDetail
       (Some \<lparr>Detail = Some (Error_PGError \<lparr>Code = ''internal'', Message = ''boom''\<rparr>
                 :: nat isError_Detail)\<rparr>) =
     Inr (Some (PGError_value \<lparr>Code = ''internal'', Message = ''boom''\<rparr>))"
  using NewError_total [of "\<lambda>err :: string option. None" "\<lambda>err :: string. None :: nat option"
      "\<lambda>err. err" "''boom''"]
  by (auto simp: CodeInternalError_def)

text \<open>
  The nil interface is not an error, and \<^verbatim>\<open>NewError(nil)\<close> does not return: when
  \<^verbatim>\<open>GetPGCause\<close> finds no cause in it, the call \<^verbatim>\<open>err.Error()\<close> of the last branch panics.
\<close>

lemma NewError_nil:
  "GetPGCause None = None \<Longrightarrow>
   NewError GetPGCause asUnhandledRetryableError err_Error None = Inl NilDereference"
  by (simp add: NewError_def)

text \<open>
  C2. \<^verbatim>\<open>NewError\<close> checks in a fixed order. An error with a database-error cause becomes an
  \<^verbatim>\<open>Error_PGError\<close> holding that cause, and \<^verbatim>\<open>ErrorDetail\<close> gives the cause back as it was,
  whatever the type assertion for the retryable error would answer. Only without such a
  cause is the type assertion tried, and an error it accepts becomes an
  \<^verbatim>\<open>Error_RetryableTxnError\<close> holding it. Only when both fail is the internal error made.
\<close>

theorem NewError_priority:
  fixes asUnhandledRetryableError :: "'e \<Rightarrow> 'r option"
  shows "(GetPGCause (Some e) = Some pgErr \<longrightarrow>
      NewError GetPGCause asUnhandledRetryableError err_Error (Some e) =
        Inr (Some \<lparr>Detail = Some (Error_PGError pgErr)\<rparr>)
      \<and> ErrorDetail (Some \<lparr>Detail = Some (Error_PGError pgErr :: 'r isError_Detail)\<rparr>) =
          Inr (Some (PGError_value pgErr)))
   \<and> (GetPGCause (Some e) = None \<and> asUnhandledRetryableError e = Some retryErr \<longrightarrow>
      NewError GetPGCause asUnhandledRetryableError err_Error (Some e) =
        Inr (Some \<lparr>Detail = Some (Error_RetryableTxnError retryErr)\<rparr>)
      \<and> ErrorDetail (Some \<lparr>Detail = Some (Error_RetryableTxnError retryErr)\<rparr>) =
          Inr (Some (UnhandledRetryableError_value retryErr)))
   \<and> (GetPGCause (Some e) = None \<and> asUnhandledRetryableError e = None \<longrightarrow>
      NewError GetPGCause asUnhandledRetryableError err_Error (Some e) =
        Inr (Some \<lparr>Detail = Some (Error_PGError
               (pgerror_NewError CodeInternalError (err_Error e)))\<rparr>))"
  by (simp add: NewError_def ErrorDetail_def)

text \<open>An error that both shape checks recognize is classified as a database error.\<close>

theorem NewError_priority_witness:
  "NewError (\<lambda>err :: nat option. Some \<lparr>Code = ''23505'', Message = ''duplicate key''\<rparr>)
     (\<lambda>err. Some err) (\<lambda>err. ''restart transaction'') (Some 7) =
     Inr (Some \<lparr>Detail = Some (Error_PGError \<lparr>Code = ''23505'', Message = ''duplicate key''\<rparr>)\<rparr>)
   \<and> ErrorDetail
       (Some \<lparr>Detail = Some (Error_PGError \<lparr>Code = ''23505'', Message = ''duplicate key''\<rparr>
                 :: nat isError_Detail)\<rparr>) =
     Inr (Some (PGError_value \<lparr>Code = ''23505'', Message = ''duplicate key''\<rparr>))
   \<and> NewError (\<lambda>err :: nat option. None) (\<lambda>err. Some err)
       (\<lambda>err. ''restart transaction'') (Some 7) =
     Inr (Some \<lparr>Detail = Some (Error_RetryableTxnError 7)\<rparr>)
   \<and> ErrorDetail (Some \<lparr>Detail = Some (Error_RetryableTxnError (7 :: nat))\<rparr>) =
     Inr (Some (UnhandledRetryableError_value 7))
   \<and> NewError (\<lambda>err :: nat option. None) (\<lambda>err. None :: nat option)
       (\<lambda>err. ''boom'') (Some 7) =
     Inr (Some \<lparr>Detail = Some (Error_PGError \<lparr>Code = ''internal'', Message = ''boom''\<rparr>)\<rparr>)"
  using
    NewError_priority [of
      "\<lambda>err :: nat option. Some \<lparr>Code = ''23505'', Message = ''duplicate key''\<rparr>" 7
      "\<lparr>Code = ''23505'', Message = ''duplicate key''\<rparr>" "\<lambda>err. Some err"
      "\<lambda>err. ''restart transaction''" 7]
    NewError_priority [of
      "\<lambda>err :: nat option. None" 7
      "\<lparr>Code = ''23505'', Message = ''duplicate key''\<rparr>" "\<lambda>err. Some err"
      "\<lambda>err. ''restart transaction''" 7]
    NewError_priority [of
      "\<lambda>err :: nat option. None" 7
      "\<lparr>Code = ''23505'', Message = ''duplicate key''\<rparr>" "\<lambda>err. None :: nat option"
      "\<lambda>err. ''boom''" 7]
  by (simp add: pgerror_NewError_def CodeInternalError_def)

text \<open>
  C5. \<^verbatim>\<open>ErrorDetail\<close> returns nil exactly on the nil envelope. On an \<^verbatim>\<open>Error_PGError\<close> it
  returns the database error inside, on an \<^verbatim>\<open>Error_RetryableTxnError\<close> the retryable error
  inside, and on every other detail, the nil \<^verbatim>\<open>Detail\<close> of an envelope that is not nil
  among them, it panics with "bad error detail".
\<close>

theorem ErrorDetail_cases:
  fixes e :: "'r Error option" and x :: "'r Error" and r :: 'r
  shows "(ErrorDetail e = Inr None \<longleftrightarrow> e = None)
   \<and> ErrorDetail (Some \<lparr>Detail = Some (Error_PGError pg :: 'r isError_Detail)\<rparr>) =
       Inr (Some (PGError_value pg))
   \<and> ErrorDetail (Some \<lparr>Detail = Some (Error_RetryableTxnError r)\<rparr>) =
       Inr (Some (UnhandledRetryableError_value r))
   \<and> ErrorDetail (Some \<lparr>Detail = (None :: 'r isError_Detail option)\<rparr>) = Inl BadErrorDetail
   \<and> ((\<forall>pg. Detail x \<noteq> Some (Error_PGError pg))
        \<and> (\<forall>r. Detail x \<noteq> Some (Error_RetryableTxnError r))
      \<longleftrightarrow> ErrorDetail (Some x) = Inl BadErrorDetail)"
  by (auto simp: ErrorDetail_def split: option.splits isError_Detail.splits)

theorem ErrorDetail_cases_witness:
  "ErrorDetail (None :: nat Error option) = Inr None
   \<and> ErrorDetail (Some \<lparr>Detail = Some (Error_OtherDetail :: nat isError_Detail)\<rparr>) =
       Inl BadErrorDetail"
  using ErrorDetail_cases [of "None :: nat Error option"
      "\<lparr>Code = ''internal'', Message = ''boom''\<rparr>" 0
      "\<lparr>Detail = Some (Error_OtherDetail :: nat isError_Detail)\<rparr>"]
  by simp

text \<open>
  C6. \<^verbatim>\<open>(*Error).String\<close> returns \<^verbatim>\<open>"<nil>"\<close> on the nil envelope. When \<^verbatim>\<open>ErrorDetail\<close>
  returns an error, it returns what the \<^verbatim>\<open>Error()\<close> method of that error returns: the
  message of the database error, or the text of the retryable error.
\<close>

theorem Error_String_cases:
  "Error_String UnhandledRetryableError_Error None = Inr ''<nil>''
   \<and> (ErrorDetail e = Inr (Some d) \<longrightarrow>
        Error_String UnhandledRetryableError_Error e =
          Inr (error_Error UnhandledRetryableError_Error d))
   \<and> Error_String UnhandledRetryableError_Error (Some \<lparr>Detail = Some (Error_PGError pg)\<rparr>) =
       Inr (Message pg)
   \<and> Error_String UnhandledRetryableError_Error
         (Some \<lparr>Detail = Some (Error_RetryableTxnError r)\<rparr>) =
       Inr (UnhandledRetryableError_Error r)"
  by (simp add: Error_String_def ErrorDetail_def error_Error_def PGError_Error_def)

theorem Error_String_cases_witness:
  "ErrorDetail
     (Some \<lparr>Detail = Some (Error_PGError \<lparr>Code = ''internal'', Message = ''boom''\<rparr>
               :: nat isError_Detail)\<rparr>) =
     Inr (Some (PGError_value \<lparr>Code = ''internal'', Message = ''boom''\<rparr>))
   \<and> Error_String (\<lambda>r :: nat. ''restart transaction'')
       (Some \<lparr>Detail = Some (Error_PGError \<lparr>Code = ''internal'', Message = ''boom''\<rparr>)\<rparr>) =
     Inr ''boom''"
proof -
  have detail: "ErrorDetail
     (Some \<lparr>Detail = Some (Error_PGError \<lparr>Code = ''internal'', Message = ''boom''\<rparr>
               :: nat isError_Detail)\<rparr>) =
     Inr (Some (PGError_value \<lparr>Code = ''internal'', Message = ''boom''\<rparr>))"
    by (simp add: ErrorDetail_def)
  with Error_String_cases [of "\<lambda>r :: nat. ''restart transaction''"
      "Some \<lparr>Detail = Some (Error_PGError \<lparr>Code = ''internal'', Message = ''boom''\<rparr>)\<rparr>"
      "PGError_value \<lparr>Code = ''internal'', Message = ''boom''\<rparr>"]
  show ?thesis
    by (simp add: error_Error_def PGError_Error_def)
qed

section \<open>Expressions: emptiness and rendering\<close>

text \<open>
  C7. \<^verbatim>\<open>Expression.String\<close> renders the local form whenever it is there, through a
  formatting context made with \<^verbatim>\<open>FmtCheckEquivalence\<close>, and then does not look at the
  textual form. Without a local form it returns the textual form when that is not empty,
  and \<^verbatim>\<open>"none"\<close> when it is.
\<close>

theorem Expression_String_cases:
  "(LocalExpr e = Some localExpr \<longrightarrow>
      Expression_String NewFmtCtx FmtCheckEquivalence FormatNode CloseAndGetString e =
        CloseAndGetString (FormatNode (NewFmtCtx FmtCheckEquivalence) localExpr)
      \<and> Expression_String NewFmtCtx FmtCheckEquivalence FormatNode CloseAndGetString e =
          Expression_String NewFmtCtx FmtCheckEquivalence FormatNode CloseAndGetString
            (e\<lparr>Expr := text\<rparr>))
   \<and> (LocalExpr e = None \<and> Expr e \<noteq> '''' \<longrightarrow>
      Expression_String NewFmtCtx FmtCheckEquivalence FormatNode CloseAndGetString e = Expr e)
   \<and> (LocalExpr e = None \<and> Expr e = '''' \<longrightarrow>
      Expression_String NewFmtCtx FmtCheckEquivalence FormatNode CloseAndGetString e = ''none'')"
  by (simp add: Expression_String_def)

theorem Expression_String_cases_witness:
  "Expression_String (\<lambda>flags :: bool. '''') True (\<lambda>ctx localExpr. ctx @ localExpr) (\<lambda>ctx. ctx)
     \<lparr>Version = '''', Expr = ''@1 + 1'', LocalExpr = Some ''a + 1''\<rparr> = ''a + 1''
   \<and> Expression_String (\<lambda>flags :: bool. '''') True (\<lambda>ctx localExpr. ctx @ localExpr) (\<lambda>ctx. ctx)
     \<lparr>Version = '''', Expr = ''@1 + 1'', LocalExpr = None\<rparr> = ''@1 + 1''
   \<and> Expression_String (\<lambda>flags :: bool. '''') True (\<lambda>ctx localExpr. ctx @ localExpr) (\<lambda>ctx. ctx)
     \<lparr>Version = '''', Expr = '''', LocalExpr = None\<rparr> = ''none''"
  using
    Expression_String_cases [of
      "\<lparr>Version = '''', Expr = ''@1 + 1'', LocalExpr = Some ''a + 1''\<rparr>" "''a + 1''"
      "\<lambda>flags :: bool. ''''" True "\<lambda>ctx localExpr. ctx @ localExpr" "\<lambda>ctx. ctx" "''''"]
    Expression_String_cases [of
      "\<lparr>Version = '''', Expr = ''@1 + 1'', LocalExpr = None\<rparr>" "''a + 1''"
      "\<lambda>flags :: bool. ''''" True "\<lambda>ctx localExpr. ctx @ localExpr" "\<lambda>ctx. ctx" "''''"]
    Expression_String_cases [of
      "\<lparr>Version = '''', Expr = '''', LocalExpr = None\<rparr>" "''a + 1''"
      "\<lambda>flags :: bool. ''''" True "\<lambda>ctx localExpr. ctx @ localExpr" "\<lambda>ctx. ctx" "''''"]
  by simp

text \<open>
  C9. On an expression (a pointer that is not nil) \<^verbatim>\<open>Empty\<close> returns, and it returns true
  exactly when the textual form is the empty string and the local form is nil. Setting the
  textual form to a string that is not empty, or setting the local form, makes it false.
\<close>

theorem Expression_Empty_iff:
  "Expression_Empty (Some e) = Inr (Expr e = '''' \<and> LocalExpr e = None)
   \<and> (Expression_Empty (Some e) = Inr True \<longleftrightarrow> Expr e = '''' \<and> LocalExpr e = None)
   \<and> (text \<noteq> '''' \<longrightarrow> Expression_Empty (Some (e\<lparr>Expr := text\<rparr>)) = Inr False)
   \<and> Expression_Empty (Some (e\<lparr>LocalExpr := Some localExpr\<rparr>)) = Inr False"
  by (simp add: Expression_Empty_def)

theorem Expression_Empty_iff_witness:
  "Expression_Empty (Some \<lparr>Version = '''', Expr = '''', LocalExpr = (None :: nat option)\<rparr>) =
     Inr True
   \<and> Expression_Empty
       (Some \<lparr>Version = '''', Expr = ''@1 + 1'', LocalExpr = (None :: nat option)\<rparr>) =
     Inr False
   \<and> Expression_Empty (Some \<lparr>Version = '''', Expr = '''', LocalExpr = Some (7 :: nat)\<rparr>) =
     Inr False"
  using Expression_Empty_iff [of
      "\<lparr>Version = '''', Expr = '''', LocalExpr = (None :: nat option)\<rparr>" "''@1 + 1''" 7]
  by simp

end
